theory Spec2Isabelle
  imports Main "HOL-Library.Sublist"
begin

section \<open>ng-openapi command line: configuration resolution and dispatch\<close>

text \<open>
  A shallow embedding of \<^verbatim>\<open>packages/ng-openapi/src/lib/cli.ts\<close>: the functions
  \<^verbatim>\<open>loadConfigFile\<close>, \<^verbatim>\<open>isUrl\<close>, \<^verbatim>\<open>validateInput\<close> and
  \<^verbatim>\<open>generateFromOptions\<close>. The TypeScript types are erased at run time, so every
  value that comes from a configuration module or from the option parser is a JavaScript
  value. Exceptions are values of a sum type, the module cache and the sequence of calls
  into the platform are explicit state.
\<close>

subsection \<open>JavaScript values\<close>

text \<open>
  Plain data only: the primitives and the objects that are finite tables of data
  properties, either ordinary ones (with \<^verbatim>\<open>Object.prototype\<close> behind them) or ones
  without a prototype (\<^verbatim>\<open>Object.create(null)\<close>, the namespace object of an ES
  module). Numbers are the integer valued ones, with \<open>NaN\<close> apart; functions, getters,
  symbols and proxies are not modelled. Strings are lists of 8-bit characters, read as
  ASCII.
\<close>

datatype jsval =
    JUndefined
  | JNull
  | JBool bool
  | JNaN
  | JNum int
  | JStr string
  | JObj "(string \<times> jsval) list"
  | JBare "(string \<times> jsval) list"

text \<open>
  A thrown value: an \<^verbatim>\<open>Error\<close> object with its message (a string, as the
  \<^verbatim>\<open>Error\<close> constructor makes it), or any other value.
\<close>

datatype thrown = JsError string | JsThrown jsval

text \<open>JavaScript truthiness, as \<^verbatim>\<open>||\<close>, \<^verbatim>\<open>!\<close> and \<^verbatim>\<open>if\<close> use it.\<close>

fun truthy :: "jsval \<Rightarrow> bool" where
  "truthy JUndefined = False"
| "truthy JNull = False"
| "truthy (JBool b) = b"
| "truthy JNaN = False"
| "truthy (JNum n) = (n \<noteq> 0)"
| "truthy (JStr s) = (s \<noteq> [])"
| "truthy (JObj ps) = True"
| "truthy (JBare ps) = True"

text \<open>\<^verbatim>\<open>a || b\<close>\<close>

definition js_or :: "jsval \<Rightarrow> jsval \<Rightarrow> jsval" where
  "js_or a b = (if truthy a then a else b)"

text \<open>
  Reading a property. On \<^verbatim>\<open>undefined\<close> and \<^verbatim>\<open>null\<close> this raises a TypeError;
  on an object it is the table entry or \<^verbatim>\<open>undefined\<close>; on the other primitives the
  program only reads names that no wrapper prototype defines, so the result is
  \<^verbatim>\<open>undefined\<close>.
\<close>

fun js_prop :: "jsval \<Rightarrow> string \<Rightarrow> jsval" where
  "js_prop (JObj ps) k = (case map_of ps k of Some v \<Rightarrow> v | None \<Rightarrow> JUndefined)"
| "js_prop (JBare ps) k = (case map_of ps k of Some v \<Rightarrow> v | None \<Rightarrow> JUndefined)"
| "js_prop v k = JUndefined"

fun nullish :: "jsval \<Rightarrow> bool" where
  "nullish JUndefined = True"
| "nullish JNull = True"
| "nullish v = False"

fun type_name :: "jsval \<Rightarrow> string" where
  "type_name JNull = ''null''"
| "type_name v = ''undefined''"

definition get_prop :: "jsval \<Rightarrow> string \<Rightarrow> thrown + jsval" where
  "get_prop v k =
     (if nullish v
      then Inl (JsError (''Cannot read properties of '' @ type_name v @
                         '' (reading '' @ [CHR 0x27] @ k @ [CHR 0x27] @ '')''))
      else Inr (js_prop v k))"

text \<open>\<^verbatim>\<open>String.prototype.toLowerCase\<close> on ASCII.\<close>

definition lower_char :: "char \<Rightarrow> char" where
  "lower_char c =
     (case map_of (zip ''ABCDEFGHIJKLMNOPQRSTUVWXYZ'' ''abcdefghijklmnopqrstuvwxyz'') c of
        Some d \<Rightarrow> d
      | None \<Rightarrow> c)"

definition toLowerCase :: "string \<Rightarrow> string" where
  "toLowerCase s = map lower_char s"

text \<open>\<^verbatim>\<open>String.prototype.endsWith\<close>\<close>

definition endsWith :: "string \<Rightarrow> string \<Rightarrow> bool" where
  "endsWith s t = suffix t s"

subsection \<open>The platform\<close>

text \<open>
  What the program calls and does not define is a parameter: the WHATWG \<^verbatim>\<open>URL\<close>
  constructor (its result reduced to the \<^verbatim>\<open>protocol\<close> field, the only one read),
  \<^verbatim>\<open>fs.existsSync\<close>, \<^verbatim>\<open>path.extname\<close>, \<^verbatim>\<open>path.resolve\<close>,
  \<^verbatim>\<open>require.resolve\<close>, the evaluation of a module file as it is on disk now,
  whether Node loads a file through its ES module loader (a file with ES module syntax,
  on a Node whose \<^verbatim>\<open>require\<close> accepts such files), loading
  \<^verbatim>\<open>ts-node/register\<close>, the generation engine \<^verbatim>\<open>generateFromConfig\<close>,
  commander's \<^verbatim>\<open>program.help()\<close>, and the text that string conversion gives a
  number (\<^verbatim>\<open>Number.prototype.toString\<close>: shortest digits, exponent form from
  \<^verbatim>\<open>1e21\<close>).
\<close>

datatype url = URL (protocol: string)

text \<open>
  \<^verbatim>\<open>Command.help()\<close> of commander writes the help text and then ends the process
  itself with status \<^verbatim>\<open>process.exitCode || 0\<close>; with an exit override installed
  it throws instead. The three possible behaviours of a call are kept apart.
\<close>

datatype help_behaviour = HelpReturns | HelpExits int | HelpThrows thrown

record env =
  URL_ctor :: "string \<Rightarrow> thrown + url"
  fs_existsSync :: "string \<Rightarrow> bool"
  path_extname :: "string \<Rightarrow> string"
  path_resolve :: "string \<Rightarrow> string"
  require_resolve :: "string \<Rightarrow> thrown + string"
  evaluate_module :: "string \<Rightarrow> thrown + jsval"
  is_es_module :: "string \<Rightarrow> bool"
  ts_node_register :: "thrown option"
  generateFromConfig :: "jsval \<Rightarrow> thrown option"
  program_help :: help_behaviour
  number_toString :: "int \<Rightarrow> string"

text \<open>
  String conversion (\<^verbatim>\<open>ToString\<close>), as a template literal and the \<^verbatim>\<open>URL\<close>
  constructor apply it. An object is first converted to a primitive by its
  \<^verbatim>\<open>toString\<close> method: an ordinary object inherits the one that answers
  \<^verbatim>\<open>[object Object]\<close>, unless an own property of that name hides it; the own
  property is data, not a function, and neither it nor \<^verbatim>\<open>valueOf\<close> yields a
  primitive, which is a TypeError. An object without a prototype has no method at all.
\<close>

definition cannot_convert :: thrown where
  "cannot_convert = JsError ''Cannot convert object to primitive value''"

fun toString :: "env \<Rightarrow> jsval \<Rightarrow> thrown + string" where
  "toString env JUndefined = Inr ''undefined''"
| "toString env JNull = Inr ''null''"
| "toString env (JBool b) = Inr (if b then ''true'' else ''false'')"
| "toString env JNaN = Inr ''NaN''"
| "toString env (JNum n) = Inr (number_toString env n)"
| "toString env (JStr s) = Inr s"
| "toString env (JObj ps) =
     (case map_of ps ''toString'' of
        None \<Rightarrow> Inr ''[object Object]''
      | Some m \<Rightarrow> Inl cannot_convert)"
| "toString env (JBare ps) = Inl cannot_convert"

text \<open>
  \<^verbatim>\<open>error instanceof Error ? error.message : error\<close>: the value itself, and its text
  when a template literal takes it.
\<close>

fun error_arg :: "thrown \<Rightarrow> jsval" where
  "error_arg (JsError m) = JStr m"
| "error_arg (JsThrown v) = v"

definition error_text :: "env \<Rightarrow> thrown \<Rightarrow> thrown + string" where
  "error_text env e = toString env (error_arg e)"

text \<open>A call into the platform that a run makes, in the order made.\<close>

datatype event =
    FsExistsSync jsval
  | PathExtname string
  | ConsoleLog "jsval list"
  | ConsoleError "jsval list"
  | ProgramHelp
  | Engine jsval

text \<open>
  The state of the process: \<^verbatim>\<open>require.cache\<close>, the cache of the ES module loader
  (which \<^verbatim>\<open>require.cache\<close> does not give access to; it keeps the outcome of the
  one evaluation of a file, an error included), and the calls made so far. The console
  events hold the arguments of the call.
\<close>

record world =
  require_cache :: "string \<rightharpoonup> jsval"
  esm_cache :: "string \<rightharpoonup> thrown + jsval"
  trace :: "event list"

definition emit :: "event \<Rightarrow> world \<Rightarrow> world" where
  "emit e w = w\<lparr>trace := trace w @ [e]\<rparr>"

subsection \<open>Input classification\<close>

text \<open>
  \<^verbatim>\<open>new URL(input)\<close> converts its argument to a string first.
  \<^verbatim>\<open>function isUrl(input) { try { new URL(input); return true; } catch { return false; } }\<close>
\<close>

definition new_URL :: "env \<Rightarrow> jsval \<Rightarrow> thrown + url" where
  "new_URL env input =
     (case toString env input of Inl e \<Rightarrow> Inl e | Inr s \<Rightarrow> URL_ctor env s)"

definition isUrl :: "env \<Rightarrow> jsval \<Rightarrow> bool" where
  "isUrl env input = (case new_URL env input of Inr u \<Rightarrow> True | Inl e \<Rightarrow> False)"

definition supportedProtocols :: "string list" where
  "supportedProtocols = [''http:'', ''https:'']"

definition supportedExtensions :: "string list" where
  "supportedExtensions = [''.json'', ''.yaml'', ''.yml'']"

text \<open>
  \<^verbatim>\<open>fs.existsSync\<close> answers false for an argument that is not a path;
  \<^verbatim>\<open>path.extname\<close> raises a TypeError for one.
\<close>

definition existsSync :: "env \<Rightarrow> jsval \<Rightarrow> bool" where
  "existsSync env v = (case v of JStr s \<Rightarrow> fs_existsSync env s | _ \<Rightarrow> False)"

text \<open>
  \<^verbatim>\<open>validateInput(inputPath)\<close>: returns normally (\<open>Inr ()\<close>) or throws. The world
  records the file system probe and the extension lookup when they happen.
\<close>

definition validateInput :: "env \<Rightarrow> world \<Rightarrow> jsval \<Rightarrow> (thrown + unit) \<times> world" where
  "validateInput env w inputPath =
     (if isUrl env inputPath then
        (case new_URL env inputPath of
           Inl e \<Rightarrow> (Inl e, w)
         | Inr u \<Rightarrow>
             if protocol u \<in> set supportedProtocols
             then (Inr (), w)
             else (Inl (JsError (''Unsupported URL protocol: '' @ protocol u @
                                 ''. Only HTTP and HTTPS are supported.'')), w))
      else
        (let w1 = emit (FsExistsSync inputPath) w in
         if \<not> existsSync env inputPath
         then (case toString env inputPath of
                 Inl e \<Rightarrow> (Inl e, w1)
               | Inr s \<Rightarrow> (Inl (JsError (''Input file not found: '' @ s)), w1))
         else
           (case inputPath of
              JStr s \<Rightarrow>
                (let w2 = emit (PathExtname s) w1;
                     extension = toLowerCase (path_extname env s)
                 in if extension \<in> set supportedExtensions
                    then (Inr (), w2)
                    else (Inl (JsError (''Failed to parse '' @
                                 (if extension \<noteq> [] then extension else ''specification'') @
                                 ''. Supported formats are .json, .yaml, and .yml.'')), w2))
            | _ \<Rightarrow> (Inl (JsError ''The path argument must be of type string''), w1))))"

subsection \<open>Loading a configuration module\<close>

text \<open>
  Node's \<^verbatim>\<open>require\<close>. \<^verbatim>\<open>require.cache\<close> is keyed by the resolved file
  name. A file that is not in it is instantiated: a CommonJS module is evaluated as it is
  on disk now; a file that goes through the ES module loader is evaluated only if that
  loader has not evaluated it before in this process, and otherwise the outcome it holds
  (the namespace object, or the error) is the result. Exports are then entered in
  \<^verbatim>\<open>require.cache\<close>.
  The evaluation of a file is a function of the disk alone (a configuration module that
  itself requires other modules of changing content is outside this model).
\<close>

definition instantiate :: "env \<Rightarrow> world \<Rightarrow> string \<Rightarrow> thrown + jsval" where
  "instantiate env w file =
     (if is_es_module env file
      then (case esm_cache w file of
              Some r \<Rightarrow> r
            | None \<Rightarrow> evaluate_module env file)
      else evaluate_module env file)"

definition require :: "env \<Rightarrow> world \<Rightarrow> string \<Rightarrow> (thrown + jsval) \<times> world" where
  "require env w p =
     (case require_resolve env p of
        Inl e \<Rightarrow> (Inl e, w)
      | Inr file \<Rightarrow>
          (case require_cache w file of
             Some m \<Rightarrow> (Inr m, w)
           | None \<Rightarrow>
               (let r = instantiate env w file;
                    w1 = (if is_es_module env file
                          then w\<lparr>esm_cache := (esm_cache w)(file \<mapsto> r)\<rparr> else w)
                in case r of
                     Inl e \<Rightarrow> (Inl e, w1)
                   | Inr m \<Rightarrow> (Inr m, w1\<lparr>require_cache := (require_cache w1)(file \<mapsto> m)\<rparr>))))"

text \<open>\<^verbatim>\<open>const config = configModule.default || configModule.config || configModule;\<close>\<close>

definition normalize_export :: "jsval \<Rightarrow> thrown + jsval" where
  "normalize_export configModule =
     (case get_prop configModule ''default'' of
        Inl e \<Rightarrow> Inl e
      | Inr d \<Rightarrow>
          if truthy d then Inr d
          else (case get_prop configModule ''config'' of
                  Inl e \<Rightarrow> Inl e
                | Inr c \<Rightarrow> if truthy c then Inr c else Inr configModule))"

definition missing_fields_message :: string where
  \<open>missing_fields_message = ''Configuration must include "input" and "output" properties''\<close>

text \<open>
  \<^verbatim>\<open>if (!config.input || !config.output) { throw new Error(...); } return config;\<close>
\<close>

definition check_required :: "jsval \<Rightarrow> thrown + jsval" where
  "check_required config =
     (case get_prop config ''input'' of
        Inl e \<Rightarrow> Inl e
      | Inr i \<Rightarrow>
          if \<not> truthy i then Inl (JsError missing_fields_message)
          else (case get_prop config ''output'' of
                  Inl e \<Rightarrow> Inl e
                | Inr out \<Rightarrow>
                    if \<not> truthy out then Inl (JsError missing_fields_message)
                    else Inr config))"

text \<open>The body of the \<^verbatim>\<open>try\<close> block of \<^verbatim>\<open>loadConfigFile\<close>.\<close>

definition load_module :: "env \<Rightarrow> world \<Rightarrow> string \<Rightarrow> (thrown + jsval) \<times> world" where
  "load_module env w resolvedPath =
     (case (if endsWith resolvedPath ''.ts'' then ts_node_register env else None) of
        Some e \<Rightarrow> (Inl e, w)
      | None \<Rightarrow>
          (case require env w resolvedPath of
             (Inl e, w1) \<Rightarrow> (Inl e, w1)
           | (Inr configModule, w1) \<Rightarrow>
               (case normalize_export configModule of
                  Inl e \<Rightarrow> (Inl e, w1)
                | Inr config \<Rightarrow> (check_required config, w1))))"

text \<open>
  The \<^verbatim>\<open>catch\<close> clause of \<^verbatim>\<open>loadConfigFile\<close>: the error it throws in turn.
  The template literal converts the caught value to a string; where that conversion
  raises a TypeError, the TypeError is what leaves the clause.
\<close>

definition wrap_load_error :: "env \<Rightarrow> thrown \<Rightarrow> thrown" where
  "wrap_load_error env e =
     (case error_text env e of
        Inl t \<Rightarrow> t
      | Inr msg \<Rightarrow> JsError (''Failed to load configuration file: '' @ msg))"

text \<open>
  \<^verbatim>\<open>loadConfigFile(configPath)\<close>. The existence test and \<^verbatim>\<open>require.resolve\<close>
  are outside the \<^verbatim>\<open>try\<close> block: what they throw is not wrapped. The cache entry of
  the resolved file is deleted before the module is required.
\<close>

definition loadConfigFile :: "env \<Rightarrow> world \<Rightarrow> string \<Rightarrow> (thrown + jsval) \<times> world" where
  "loadConfigFile env w configPath =
     (let resolvedPath = path_resolve env configPath;
          w1 = emit (FsExistsSync (JStr resolvedPath)) w
      in if \<not> fs_existsSync env resolvedPath
         then (Inl (JsError (''Configuration file not found: '' @ resolvedPath)), w1)
         else
           (case require_resolve env resolvedPath of
              Inl e \<Rightarrow> (Inl e, w1)
            | Inr file \<Rightarrow>
                (case load_module env
                        (w1\<lparr>require_cache := (require_cache w1)(file := None)\<rparr>) resolvedPath of
                   (Inl e, w2) \<Rightarrow> (Inl (wrap_load_error env e), w2)
                 | (Inr config, w2) \<Rightarrow> (Inr config, w2))))"

subsection \<open>Merging flags and dispatching\<close>

text \<open>How the body of the \<^verbatim>\<open>try\<close> block of \<^verbatim>\<open>generateFromOptions\<close> ends.\<close>

datatype completion = Returned | Threw thrown | Exited int

text \<open>The object literal built from the flags.\<close>

definition flags_config :: "jsval \<Rightarrow> jsval" where
  "flags_config options =
     JObj [(''input'', js_prop options ''input''),
           (''output'', js_or (js_prop options ''output'') (JStr ''./src/generated'')),
           (''options'',
              JObj [(''dateType'', js_or (js_prop options ''dateType'') (JStr ''Date'')),
                    (''enumStyle'', JStr ''enum''),
                    (''generateEnumBasedOnDescription'', JBool True),
                    (''generateServices'', JBool (\<not> truthy (js_prop options ''typesOnly'')))])]"

text \<open>\<^verbatim>\<open>await generateFromConfig(config)\<close>\<close>

definition call_engine :: "env \<Rightarrow> world \<Rightarrow> jsval \<Rightarrow> completion \<times> world" where
  "call_engine env w config =
     (let w1 = emit (Engine config) w
      in case generateFromConfig env config of
           Some e \<Rightarrow> (Threw e, w1)
         | None \<Rightarrow> (Returned, w1))"

text \<open>
  \<^verbatim>\<open>loadConfigFile(options.config)\<close> with the run-time value of the flag:
  \<^verbatim>\<open>path.resolve\<close> raises a TypeError for an argument that is not a string.
\<close>

definition load_from_flag :: "env \<Rightarrow> world \<Rightarrow> jsval \<Rightarrow> (thrown + jsval) \<times> world" where
  "load_from_flag env w v =
     (case v of
        JStr p \<Rightarrow> loadConfigFile env w p
      | _ \<Rightarrow> (Inl (JsError ''The paths[0] argument must be of type string''), w))"

definition usage_message :: string where
  "usage_message = ''Error: Either --config or --input option is required''"

text \<open>
  The three branches of \<^verbatim>\<open>generateFromOptions\<close>. Once \<^verbatim>\<open>options.config\<close> has
  been read, \<^verbatim>\<open>options\<close> is neither \<^verbatim>\<open>undefined\<close> nor \<^verbatim>\<open>null\<close>, and its other
  properties are read without a TypeError.
\<close>

definition dispatch :: "env \<Rightarrow> world \<Rightarrow> jsval \<Rightarrow> completion \<times> world" where
  "dispatch env w options =
     (case get_prop options ''config'' of
        Inl e \<Rightarrow> (Threw e, w)
      | Inr configFlag \<Rightarrow>
          if truthy configFlag then
            (case load_from_flag env w configFlag of
               (Inl e, w1) \<Rightarrow> (Threw e, w1)
             | (Inr config, w1) \<Rightarrow>
                 (case get_prop config ''input'' of
                    Inl e \<Rightarrow> (Threw e, w1)
                  | Inr inp \<Rightarrow>
                      (case validateInput env w1 inp of
                         (Inl e, w2) \<Rightarrow> (Threw e, w2)
                       | (Inr u, w2) \<Rightarrow> call_engine env w2 config)))
          else if truthy (js_prop options ''input'') then
            (case validateInput env w (js_prop options ''input'') of
               (Inl e, w1) \<Rightarrow> (Threw e, w1)
             | (Inr u, w1) \<Rightarrow> call_engine env w1 (flags_config options))
          else
            (let w1 = emit ProgramHelp (emit (ConsoleError [JStr usage_message]) w)
             in case program_help env of
                  HelpExits n \<Rightarrow> (Exited n, w1)
                | HelpThrows e \<Rightarrow> (Threw e, w1)
                | HelpReturns \<Rightarrow> (Exited 1, w1)))"

text \<open>
  \<^verbatim>\<open>generateFromOptions(options)\<close>: the exit status of the process and the final
  world. A run that returns normally prints the success line and the process ends with
  status 0; a caught error is printed (the label and the message or the thrown value are
  the two arguments of \<^verbatim>\<open>console.error\<close>) and the process exits with status 1.
  The marker glyphs that start the two lines are left out of the strings.
\<close>

definition generateFromOptions :: "env \<Rightarrow> world \<Rightarrow> jsval \<Rightarrow> int \<times> world" where
  "generateFromOptions env w options =
     (case dispatch env w options of
        (Returned, w1) \<Rightarrow>
          (0, emit (ConsoleLog [JStr ''Generation completed successfully!'']) w1)
      | (Threw e, w1) \<Rightarrow>
          (1, emit (ConsoleError [JStr ''Generation failed:'', error_arg e]) w1)
      | (Exited n, w1) \<Rightarrow> (n, w1))"

text \<open>The requests handed to the generation engine during a run, in order.\<close>

fun engine_requests :: "event list \<Rightarrow> jsval list" where
  "engine_requests [] = []"
| "engine_requests (Engine r # es) = r # engine_requests es"
| "engine_requests (e # es) = engine_requests es"

subsection \<open>What the specification says, in its own words\<close>

text \<open>Two extensions are the same "compared case-insensitively".\<close>

definition same_ignoring_case :: "string \<Rightarrow> string \<Rightarrow> bool" where
  "same_ignoring_case a b = (toLowerCase a = toLowerCase b)"

text \<open>A field "carries a value".\<close>

definition carries_value :: "jsval \<Rightarrow> bool" where
  "carries_value v = (\<not> nullish v)"

text \<open>
  A request is "fully populated": the input, the output and the four options fields carry
  a value.
\<close>

definition fully_populated :: "jsval \<Rightarrow> bool" where
  "fully_populated r =
     (carries_value (js_prop r ''input'') \<and>
      carries_value (js_prop r ''output'') \<and>
      carries_value (js_prop (js_prop r ''options'') ''dateType'') \<and>
      carries_value (js_prop (js_prop r ''options'') ''enumStyle'') \<and>
      carries_value (js_prop (js_prop r ''options'') ''generateEnumBasedOnDescription'') \<and>
      carries_value (js_prop (js_prop r ''options'') ''generateServices''))"

text \<open>An export is "present": the module is an object whose table has the key.\<close>

fun export_present :: "jsval \<Rightarrow> string \<Rightarrow> bool" where
  "export_present (JObj ps) k = (case map_of ps k of Some v \<Rightarrow> True | None \<Rightarrow> False)"
| "export_present (JBare ps) k = (case map_of ps k of Some v \<Rightarrow> True | None \<Rightarrow> False)"
| "export_present v k = False"

text \<open>
  The normalization in the specification's words: the "default" export if present,
  otherwise the "config" named export if present, otherwise the module's own value.
\<close>

definition normalize_by_presence :: "jsval \<Rightarrow> jsval" where
  "normalize_by_presence m =
     (if export_present m ''default'' then js_prop m ''default''
      else if export_present m ''config'' then js_prop m ''config''
      else m)"

subsection \<open>A sample platform\<close>

text \<open>
  A small concrete platform on which the definitions are run: the working directory is
  the root, the disk holds one configuration module \<^verbatim>\<open>/cfg.js\<close> (what its evaluation
  yields is the argument, a CommonJS module) and four other files, and the engine
  succeeds.
\<close>

text \<open>Decimal digits, the text of a number on the sample platform.\<close>

fun show_nat :: "nat \<Rightarrow> string" where
  "show_nat n =
     (if n < 10 then [''0123456789'' ! n]
      else show_nat (n div 10) @ [''0123456789'' ! (n mod 10)])"

declare show_nat.simps [simp del]

definition show_int :: "int \<Rightarrow> string" where
  "show_int i = (if i < 0 then CHR ''-'' # show_nat (nat (- i)) else show_nat (nat i))"

definition sample_URL :: "string \<Rightarrow> thrown + url" where
  "sample_URL s =
     (if prefix ''https://'' s then Inr (URL ''https:'')
      else if prefix ''http://'' s then Inr (URL ''http:'')
      else if prefix ''ftp://'' s then Inr (URL ''ftp:'')
      else Inl (JsError ''Invalid URL''))"

definition sample_files :: "string list" where
  "sample_files = [''/cfg.js'', ''./spec.json'', ''./API.JSON'', ''./notes.txt'', ''./README'']"

definition sample_extname :: "string \<Rightarrow> string" where
  "sample_extname p =
     (if p = ''./spec.json'' then ''.json''
      else if p = ''./API.JSON'' then ''.JSON''
      else if p = ''./notes.txt'' then ''.txt''
      else if p = ''/cfg.js'' then ''.js''
      else if p = ''./missing.yaml'' then ''.yaml''
      else [])"

definition sample_resolve :: "string \<Rightarrow> string" where
  "sample_resolve p = (case p of CHR ''/'' # q \<Rightarrow> p | _ \<Rightarrow> CHR ''/'' # p)"

definition sample_env :: "(thrown + jsval) \<Rightarrow> help_behaviour \<Rightarrow> env" where
  "sample_env m h =
     \<lparr> URL_ctor = sample_URL,
       fs_existsSync = (\<lambda>p. p \<in> set sample_files),
       path_extname = sample_extname,
       path_resolve = sample_resolve,
       require_resolve =
         (\<lambda>p. if p = ''/cfg.js'' then Inr p else Inl (JsError (''Cannot find module '' @ p))),
       evaluate_module =
         (\<lambda>f. if f = ''/cfg.js'' then m else Inl (JsError (''Cannot find module '' @ f))),
       is_es_module = (\<lambda>f. False),
       ts_node_register = None,
       generateFromConfig = (\<lambda>r. None),
       program_help = h,
       number_toString = show_int \<rparr>"

text \<open>A configuration object with the two required fields and nothing else.\<close>

definition sample_config :: "string \<Rightarrow> jsval" where
  "sample_config i = JObj [(''input'', JStr i), (''output'', JStr ''out'')]"

text \<open>
  The same platform on a Node that loads \<^verbatim>\<open>/cfg.js\<close>, written with ES module
  syntax, through its ES module loader.
\<close>

definition sample_esm_env :: "(thrown + jsval) \<Rightarrow> help_behaviour \<Rightarrow> env" where
  "sample_esm_env m h = (sample_env m h)\<lparr>is_es_module := (\<lambda>f. True)\<rparr>"

definition fresh_world :: world where
  "fresh_world = \<lparr> require_cache = Map.empty, esm_cache = Map.empty, trace = [] \<rparr>"

section \<open>Properties\<close>

lemmas sample_defs = sample_env_def sample_URL_def sample_files_def sample_extname_def
  sample_resolve_def fresh_world_def sample_config_def show_int_def sample_esm_env_def

subsection \<open>Input classification\<close>

text \<open>
  C1. An input string that parses as a URL whose protocol is neither \<^verbatim>\<open>http:\<close> nor
  \<^verbatim>\<open>https:\<close> makes validation throw the unsupported-protocol error, and the world is
  unchanged: neither the existence probe nor the extension lookup was made.
\<close>

theorem validateInput_unsupported_protocol:
  assumes "URL_ctor env s = Inr u"
    and "protocol u \<noteq> ''http:''" and "protocol u \<noteq> ''https:''"
  shows "validateInput env w (JStr s) =
           (Inl (JsError (''Unsupported URL protocol: '' @ protocol u @
                          ''. Only HTTP and HTTPS are supported.'')), w)"
  using assms
  by (simp add: validateInput_def isUrl_def new_URL_def supportedProtocols_def)

theorem validateInput_unsupported_protocol_witness:
  "URL_ctor (sample_env (Inr JNull) (HelpExits 0)) ''ftp://x'' = Inr (URL ''ftp:'') \<and>
   protocol (URL ''ftp:'') \<noteq> ''http:'' \<and> protocol (URL ''ftp:'') \<noteq> ''https:'' \<and>
   validateInput (sample_env (Inr JNull) (HelpExits 0)) fresh_world (JStr ''ftp://x'') =
     (Inl (JsError ''Unsupported URL protocol: ftp:. Only HTTP and HTTPS are supported.''),
      fresh_world)"
  using validateInput_unsupported_protocol
          [of "sample_env (Inr JNull) (HelpExits 0)" "''ftp://x''" "URL ''ftp:''" fresh_world]
  by (simp add: sample_env_def sample_URL_def)

lemma toLowerCase_supported: "x \<in> set supportedExtensions \<Longrightarrow> toLowerCase x = x"
  by (auto simp: supportedExtensions_def toLowerCase_def lower_char_def)

lemma lowered_supported_iff:
  "toLowerCase ext \<in> set supportedExtensions \<longleftrightarrow>
     (\<exists>x \<in> set supportedExtensions. same_ignoring_case ext x)"
  unfolding same_ignoring_case_def
  by (metis toLowerCase_supported)

lemma validateInput_local:
  assumes "URL_ctor env s = Inl e"
  shows "fst (validateInput env w (JStr s)) =
          (if \<not> fs_existsSync env s then Inl (JsError (''Input file not found: '' @ s))
           else if toLowerCase (path_extname env s) \<in> set supportedExtensions then Inr ()
           else Inl (JsError (''Failed to parse '' @
                   (if toLowerCase (path_extname env s) \<noteq> [] then toLowerCase (path_extname env s)
                    else ''specification'') @
                   ''. Supported formats are .json, .yaml, and .yml.'')))"
  using assms
  by (simp add: validateInput_def isUrl_def new_URL_def existsSync_def Let_def)

text \<open>
  C7. An input string that does not parse as a URL passes validation exactly when the path
  exists and its extension is, compared case-insensitively, one of \<^verbatim>\<open>.json\<close>,
  \<^verbatim>\<open>.yaml\<close>, \<^verbatim>\<open>.yml\<close>. A path that does not exist gives the not-found error;
  an existing path with any other extension, the empty one included, gives the
  unsupported-format error.
\<close>

theorem validateInput_local_file:
  assumes "URL_ctor env s = Inl e"
  shows "(fst (validateInput env w (JStr s)) = Inr () \<longleftrightarrow>
            fs_existsSync env s \<and>
            (\<exists>x \<in> set supportedExtensions. same_ignoring_case (path_extname env s) x)) \<and>
         (\<not> fs_existsSync env s \<longrightarrow>
            fst (validateInput env w (JStr s)) = Inl (JsError (''Input file not found: '' @ s))) \<and>
         (fs_existsSync env s \<and>
          \<not> (\<exists>x \<in> set supportedExtensions. same_ignoring_case (path_extname env s) x) \<longrightarrow>
            fst (validateInput env w (JStr s)) =
              Inl (JsError (''Failed to parse '' @
                    (if path_extname env s = [] then ''specification''
                     else toLowerCase (path_extname env s)) @
                    ''. Supported formats are .json, .yaml, and .yml.'')))"
  unfolding lowered_supported_iff [symmetric] validateInput_local [OF assms]
  by (simp add: toLowerCase_def)

theorem validateInput_local_file_witness:
  "URL_ctor (sample_env (Inr JNull) (HelpExits 0)) ''./API.JSON'' = Inl (JsError ''Invalid URL'') \<and>
   fs_existsSync (sample_env (Inr JNull) (HelpExits 0)) ''./API.JSON'' \<and>
   same_ignoring_case (path_extname (sample_env (Inr JNull) (HelpExits 0)) ''./API.JSON'') ''.json'' \<and>
   fst (validateInput (sample_env (Inr JNull) (HelpExits 0)) fresh_world (JStr ''./API.JSON'')) = Inr () \<and>
   \<not> fs_existsSync (sample_env (Inr JNull) (HelpExits 0)) ''./missing.yaml'' \<and>
   fst (validateInput (sample_env (Inr JNull) (HelpExits 0)) fresh_world (JStr ''./missing.yaml'')) =
     Inl (JsError ''Input file not found: ./missing.yaml'') \<and>
   fs_existsSync (sample_env (Inr JNull) (HelpExits 0)) ''./README'' \<and>
   path_extname (sample_env (Inr JNull) (HelpExits 0)) ''./README'' = [] \<and>
   fst (validateInput (sample_env (Inr JNull) (HelpExits 0)) fresh_world (JStr ''./README'')) =
     Inl (JsError ''Failed to parse specification. Supported formats are .json, .yaml, and .yml.'')"
  using validateInput_local_file
          [of "sample_env (Inr JNull) (HelpExits 0)" "''./API.JSON''" "JsError ''Invalid URL''" fresh_world]
        validateInput_local_file
          [of "sample_env (Inr JNull) (HelpExits 0)" "''./missing.yaml''" "JsError ''Invalid URL''" fresh_world]
        validateInput_local_file
          [of "sample_env (Inr JNull) (HelpExits 0)" "''./README''" "JsError ''Invalid URL''" fresh_world]
  by (simp add: sample_env_def sample_URL_def sample_files_def sample_extname_def
        same_ignoring_case_def toLowerCase_def lower_char_def supportedExtensions_def)

subsection \<open>Loading a configuration module\<close>

lemma normalize_export_obj:
  "\<not> nullish m \<Longrightarrow>
   normalize_export m =
     Inr (if truthy (js_prop m ''default'') then js_prop m ''default''
          else if truthy (js_prop m ''config'') then js_prop m ''config'' else m)"
  by (simp add: normalize_export_def get_prop_def)

lemma normalize_export_nullish:
  "nullish m \<Longrightarrow> isl (normalize_export m)"
  by (simp add: normalize_export_def get_prop_def)

lemma truthy_not_nullish: "truthy v \<Longrightarrow> \<not> nullish v"
  by (cases v) simp_all

lemma normalize_export_result:
  "normalize_export m = Inr c \<Longrightarrow> \<not> nullish c"
  by (cases "nullish m")
     (auto simp: normalize_export_def get_prop_def truthy_not_nullish split: if_splits)

lemma check_required_Inr:
  "check_required c = Inr c' \<Longrightarrow>
     c' = c \<and> truthy (js_prop c ''input'') \<and> truthy (js_prop c ''output'')"
  by (auto simp: check_required_def get_prop_def split: if_splits)

lemma check_required_missing:
  "\<not> nullish c \<Longrightarrow> \<not> truthy (js_prop c ''input'') \<or> \<not> truthy (js_prop c ''output'') \<Longrightarrow>
     check_required c = Inl (JsError missing_fields_message)"
  by (auto simp: check_required_def get_prop_def)

lemma check_required_ok:
  "\<not> nullish c \<Longrightarrow> truthy (js_prop c ''input'') \<Longrightarrow> truthy (js_prop c ''output'') \<Longrightarrow>
     check_required c = Inr c"
  by (simp add: check_required_def get_prop_def)

lemma instantiate_cong [simp]:
  "instantiate env (w\<lparr>require_cache := c\<rparr>) f = instantiate env w f"
  "instantiate env (w\<lparr>trace := t\<rparr>) f = instantiate env w f"
  by (simp_all add: instantiate_def)

lemma wrap_load_error_message [simp]:
  "wrap_load_error env (JsError m) = JsError (''Failed to load configuration file: '' @ m)"
  by (simp add: wrap_load_error_def error_text_def)

text \<open>
  What a load returns: of the state of the process, only what the ES module loader holds
  for the file plays a part.
\<close>

lemma loadConfigFile_result:
  "fst (loadConfigFile env w p) =
     (let resolvedPath = path_resolve env p in
      if \<not> fs_existsSync env resolvedPath
      then Inl (JsError (''Configuration file not found: '' @ resolvedPath))
      else case require_resolve env resolvedPath of
             Inl e \<Rightarrow> Inl e
           | Inr fl \<Rightarrow>
               (case (if endsWith resolvedPath ''.ts'' then ts_node_register env else None) of
                  Some e \<Rightarrow> Inl (wrap_load_error env e)
                | None \<Rightarrow>
                   (case instantiate env w fl of
                      Inl e \<Rightarrow> Inl (wrap_load_error env e)
                    | Inr m \<Rightarrow>
                       (case normalize_export m of
                          Inl e \<Rightarrow> Inl (wrap_load_error env e)
                        | Inr c \<Rightarrow> (case check_required c of
                                       Inl e \<Rightarrow> Inl (wrap_load_error env e)
                                     | Inr c' \<Rightarrow> Inr c')))))"
  by (simp add: loadConfigFile_def load_module_def require_def emit_def Let_def
           split: sum.splits option.splits prod.splits)

text \<open>
  The wrapping error does not name the path: a module \<^verbatim>\<open>/cfg.js\<close> whose evaluation
  throws \<^verbatim>\<open>Error("boom")\<close> fails to load with a message in which neither the resolved
  path nor the path as given occurs.
\<close>

theorem loadConfigFile_error_without_path:
  "fst (loadConfigFile (sample_env (Inl (JsError ''boom'')) (HelpExits 0)) fresh_world ''cfg.js'') =
     Inl (JsError ''Failed to load configuration file: boom'') \<and>
   path_resolve (sample_env (Inl (JsError ''boom'')) (HelpExits 0)) ''cfg.js'' = ''/cfg.js'' \<and>
   \<not> sublist ''/cfg.js'' ''Failed to load configuration file: boom'' \<and>
   \<not> sublist ''cfg.js'' ''Failed to load configuration file: boom''"
  by (simp add: loadConfigFile_result sample_defs endsWith_def instantiate_def
        sublist_code prefix_code Let_def)

text \<open>
  C4 (as amended). An error raised while the configuration module is evaluated makes the
  load fail, and the dispatcher print the failure and exit with status 1: it is not
  swallowed. When the cause is an \<^verbatim>\<open>Error\<close>, or another thrown value that converts to
  a string, the error thrown in its place has the message
  \<^verbatim>\<open>Failed to load configuration file: \<close> followed by the message of the cause (by
  the thrown value as a string); the path is not part of it. When the thrown value does
  not convert to a string, the TypeError of that conversion is thrown in its place.
\<close>

theorem loadConfigFile_wraps_evaluation_error:
  assumes "fs_existsSync env (path_resolve env p)"
    and "require_resolve env (path_resolve env p) = Inr f"
    and "endsWith (path_resolve env p) ''.ts'' \<longrightarrow> ts_node_register env = None"
    and "evaluate_module env f = Inl e"
    and "is_es_module env f \<longrightarrow> esm_cache w f = None"
    and "p \<noteq> []"
  shows "(error_text env e = Inr t \<longrightarrow>
            fst (loadConfigFile env w p) =
              Inl (JsError (''Failed to load configuration file: '' @ t)) \<and>
            last (trace (snd (generateFromOptions env w (JObj [(''config'', JStr p)])))) =
              ConsoleError [JStr ''Generation failed:'',
                            JStr (''Failed to load configuration file: '' @ t)]) \<and>
         (error_text env e = Inl c \<longrightarrow>
            fst (loadConfigFile env w p) = Inl c \<and>
            last (trace (snd (generateFromOptions env w (JObj [(''config'', JStr p)])))) =
              ConsoleError [JStr ''Generation failed:'', error_arg c]) \<and>
         fst (generateFromOptions env w (JObj [(''config'', JStr p)])) = 1"
proof -
  have i: "instantiate env w f = Inl e"
    using assms(4,5) by (auto simp: instantiate_def)
  have r: "fst (loadConfigFile env w p) = Inl (wrap_load_error env e)"
    using assms(1-3) i by (auto simp: loadConfigFile_result)
  then obtain w' where l: "loadConfigFile env w p = (Inl (wrap_load_error env e), w')"
    by (metis prod.collapse)
  have d: "dispatch env w (JObj [(''config'', JStr p)]) = (Threw (wrap_load_error env e), w')"
    using assms(6) by (simp add: dispatch_def get_prop_def load_from_flag_def l)
  have g: "generateFromOptions env w (JObj [(''config'', JStr p)]) =
             (1, emit (ConsoleError [JStr ''Generation failed:'',
                                     error_arg (wrap_load_error env e)]) w')"
    by (simp add: generateFromOptions_def d)
  show ?thesis
    unfolding g r by (simp add: emit_def wrap_load_error_def)
qed

theorem loadConfigFile_wraps_evaluation_error_witness:
  "fs_existsSync (sample_env (Inl (JsThrown (JNum 42))) HelpReturns)
     (path_resolve (sample_env (Inl (JsThrown (JNum 42))) HelpReturns) ''cfg.js'') \<and>
   require_resolve (sample_env (Inl (JsThrown (JNum 42))) HelpReturns)
     (path_resolve (sample_env (Inl (JsThrown (JNum 42))) HelpReturns) ''cfg.js'') = Inr ''/cfg.js'' \<and>
   \<not> endsWith (path_resolve (sample_env (Inl (JsThrown (JNum 42))) HelpReturns) ''cfg.js'') ''.ts'' \<and>
   evaluate_module (sample_env (Inl (JsThrown (JNum 42))) HelpReturns) ''/cfg.js'' =
     Inl (JsThrown (JNum 42)) \<and>
   \<not> is_es_module (sample_env (Inl (JsThrown (JNum 42))) HelpReturns) ''/cfg.js'' \<and>
   ''cfg.js'' \<noteq> [] \<and>
   error_text (sample_env (Inl (JsThrown (JNum 42))) HelpReturns) (JsThrown (JNum 42)) = Inr ''42'' \<and>
   fst (loadConfigFile (sample_env (Inl (JsThrown (JNum 42))) HelpReturns) fresh_world ''cfg.js'') =
     Inl (JsError ''Failed to load configuration file: 42'') \<and>
   error_text (sample_env (Inl (JsThrown (JBare []))) HelpReturns) (JsThrown (JBare [])) =
     Inl cannot_convert \<and>
   fst (loadConfigFile (sample_env (Inl (JsThrown (JBare []))) HelpReturns) fresh_world ''cfg.js'') =
     Inl cannot_convert \<and>
   fst (generateFromOptions (sample_env (Inl (JsThrown (JNum 42))) HelpReturns) fresh_world
          (JObj [(''config'', JStr ''cfg.js'')])) = 1"
  using loadConfigFile_wraps_evaluation_error
          [of "sample_env (Inl (JsThrown (JNum 42))) HelpReturns" "''cfg.js''" "''/cfg.js''"
              "JsThrown (JNum 42)" fresh_world "''42''" cannot_convert]
        loadConfigFile_wraps_evaluation_error
          [of "sample_env (Inl (JsThrown (JBare []))) HelpReturns" "''cfg.js''" "''/cfg.js''"
              "JsThrown (JBare [])" fresh_world "''42''" cannot_convert]
  by (simp add: sample_defs endsWith_def show_nat.simps suffix_to_prefix error_text_def)

text \<open>
  Node's module cache alone would serve the old exports: requiring \<^verbatim>\<open>/cfg.js\<close> a
  second time, after its contents changed, returns what the first evaluation produced.
\<close>

lemma require_is_cached:
  "fst (require (sample_env (Inr (JNum 2)) h)
          (snd (require (sample_env (Inr (JNum 1)) h) fresh_world ''/cfg.js'')) ''/cfg.js'') =
     Inr (JNum 1)"
  by (simp add: require_def instantiate_def Let_def sample_defs)

text \<open>
  For a CommonJS configuration module the deletion of the cache entry does what its
  comment says: whatever an earlier load left behind, the load returns what the module on
  disk now evaluates to, normalized and checked, as a load in a fresh process does.
\<close>

lemma loadConfigFile_commonjs_fresh:
  assumes "fs_existsSync env2 (path_resolve env2 p)"
    and "require_resolve env2 (path_resolve env2 p) = Inr f"
    and "endsWith (path_resolve env2 p) ''.ts'' \<longrightarrow> ts_node_register env2 = None"
    and "\<not> is_es_module env2 f"
    and "evaluate_module env2 f = Inr m2"
  shows "fst (loadConfigFile env2 (snd (loadConfigFile env1 w p)) p) =
           (case normalize_export m2 of
              Inl e \<Rightarrow> Inl (wrap_load_error env2 e)
            | Inr c \<Rightarrow> (case check_required c of
                           Inl e \<Rightarrow> Inl (wrap_load_error env2 e)
                         | Inr c' \<Rightarrow> Inr c')) \<and>
         fst (loadConfigFile env2 (snd (loadConfigFile env1 w p)) p) =
           fst (loadConfigFile env2 fresh_world p)"
  using assms by (auto simp: loadConfigFile_result instantiate_def)

text \<open>
  C5. A configuration file written with ES module syntax, on a Node that loads it through
  the ES module loader, is loaded twice in one process; between the two loads its default
  export changes from a configuration with input \<^verbatim>\<open>./old.json\<close> to one with input
  \<^verbatim>\<open>./new.yaml\<close>. The second load returns the configuration of the first evaluation,
  not the one on disk, which a load in a fresh process returns: deleting the entry of
  \<^verbatim>\<open>require.cache\<close> does not reach the cache of the ES module loader.
\<close>

theorem loadConfigFile_es_module_stale:
  "fst (loadConfigFile
          (sample_esm_env (Inr (JBare [(''default'', sample_config ''./new.yaml'')])) HelpReturns)
          (snd (loadConfigFile
                  (sample_esm_env (Inr (JBare [(''default'', sample_config ''./old.json'')]))
                     HelpReturns)
                  fresh_world ''cfg.js''))
          ''cfg.js'') =
     Inr (sample_config ''./old.json'') \<and>
   fst (loadConfigFile
          (sample_esm_env (Inr (JBare [(''default'', sample_config ''./new.yaml'')])) HelpReturns)
          fresh_world ''cfg.js'') =
     Inr (sample_config ''./new.yaml'')"
  by (simp add: loadConfigFile_def load_module_def require_def instantiate_def emit_def Let_def
        normalize_export_def check_required_def get_prop_def sample_defs endsWith_def
        suffix_to_prefix)

text \<open>
  C6. A module whose normalized value has a falsy (absent or empty) \<^verbatim>\<open>input\<close> or
  \<^verbatim>\<open>output\<close> field fails to load, whatever else it holds, and the message of the
  failure contains the text \<^verbatim>\<open>Configuration must include "input" and "output" properties\<close>.
\<close>

theorem loadConfigFile_missing_fields:
  assumes \<open>fs_existsSync env (path_resolve env p)\<close>
    and \<open>require_resolve env (path_resolve env p) = Inr f\<close>
    and \<open>endsWith (path_resolve env p) ''.ts'' \<longrightarrow> ts_node_register env = None\<close>
    and \<open>instantiate env w f = Inr m\<close>
    and \<open>normalize_export m = Inr c\<close>
    and \<open>\<not> truthy (js_prop c ''input'') \<or> \<not> truthy (js_prop c ''output'')\<close>
  shows \<open>fst (loadConfigFile env w p) =
           Inl (JsError ''Failed to load configuration file: Configuration must include "input" and "output" properties'') \<and>
         sublist ''Configuration must include "input" and "output" properties''
           ''Failed to load configuration file: Configuration must include "input" and "output" properties''\<close>
proof -
  have \<open>check_required c = Inl (JsError missing_fields_message)\<close>
    using assms(5,6) by (simp add: check_required_missing normalize_export_result)
  then have \<open>fst (loadConfigFile env w p) =
               Inl (wrap_load_error env (JsError missing_fields_message))\<close>
    using assms(1-5) by (auto simp: loadConfigFile_result)
  moreover have
    \<open>sublist ''Configuration must include "input" and "output" properties''
       (''Failed to load configuration file: '' @
        ''Configuration must include "input" and "output" properties'')\<close>
    by (rule sublist_append_leftI)
  ultimately show ?thesis
    by (simp add: missing_fields_message_def)
qed

theorem loadConfigFile_missing_fields_witness:
  \<open>fs_existsSync (sample_env (Inr (JObj [(''output'', JStr ''out''), (''options'', JObj [])])) HelpReturns)
     (path_resolve (sample_env (Inr (JObj [(''output'', JStr ''out''), (''options'', JObj [])])) HelpReturns)
        ''cfg.js'') \<and>
   require_resolve (sample_env (Inr (JObj [(''output'', JStr ''out''), (''options'', JObj [])])) HelpReturns)
     (path_resolve (sample_env (Inr (JObj [(''output'', JStr ''out''), (''options'', JObj [])])) HelpReturns)
        ''cfg.js'') = Inr ''/cfg.js'' \<and>
   \<not> endsWith
       (path_resolve (sample_env (Inr (JObj [(''output'', JStr ''out''), (''options'', JObj [])])) HelpReturns)
          ''cfg.js'') ''.ts'' \<and>
   instantiate (sample_env (Inr (JObj [(''output'', JStr ''out''), (''options'', JObj [])])) HelpReturns)
     fresh_world ''/cfg.js'' = Inr (JObj [(''output'', JStr ''out''), (''options'', JObj [])]) \<and>
   normalize_export (JObj [(''output'', JStr ''out''), (''options'', JObj [])]) =
     Inr (JObj [(''output'', JStr ''out''), (''options'', JObj [])]) \<and>
   \<not> truthy (js_prop (JObj [(''output'', JStr ''out''), (''options'', JObj [])]) ''input'') \<and>
   fst (loadConfigFile
          (sample_env (Inr (JObj [(''output'', JStr ''out''), (''options'', JObj [])])) HelpReturns)
          fresh_world ''cfg.js'') =
     Inl (JsError ''Failed to load configuration file: Configuration must include "input" and "output" properties'')\<close>
  using loadConfigFile_missing_fields
          [of \<open>sample_env (Inr (JObj [(''output'', JStr ''out''), (''options'', JObj [])])) HelpReturns\<close>
              \<open>''cfg.js''\<close> \<open>''/cfg.js''\<close> fresh_world
              \<open>JObj [(''output'', JStr ''out''), (''options'', JObj [])]\<close>
              \<open>JObj [(''output'', JStr ''out''), (''options'', JObj [])]\<close>]
  by (simp add: sample_defs endsWith_def suffix_to_prefix normalize_export_def get_prop_def
        instantiate_def)

subsection \<open>Export styles\<close>

text \<open>
  Presence of the key does not decide: a module with \<^verbatim>\<open>default: null\<close> and a
  \<^verbatim>\<open>config\<close> export normalizes to the \<^verbatim>\<open>config\<close> export, where the order by
  presence would take the \<^verbatim>\<open>default\<close> export \<^verbatim>\<open>null\<close>.
\<close>

theorem normalize_export_present_but_falsy:
  "normalize_export (JObj [(''default'', JNull), (''config'', sample_config ''./spec.json'')]) =
     Inr (sample_config ''./spec.json'') \<and>
   normalize_by_presence (JObj [(''default'', JNull), (''config'', sample_config ''./spec.json'')]) =
     JNull \<and>
   normalize_export (JObj [(''default'', JNull), (''config'', sample_config ''./spec.json'')]) \<noteq>
     Inr (normalize_by_presence
            (JObj [(''default'', JNull), (''config'', sample_config ''./spec.json'')]))"
  by (simp add: normalize_export_def get_prop_def normalize_by_presence_def sample_config_def)

text \<open>
  C9 (as amended). The loader normalizes the value of the module in this order: the
  \<^verbatim>\<open>default\<close> export if it is truthy, otherwise the \<^verbatim>\<open>config\<close> export if it is
  truthy, otherwise the value of the module itself. Where every one of the two exports
  that is present is truthy, this is the order by presence.
\<close>

theorem normalize_export_priority:
  assumes "\<not> nullish m"
  shows "normalize_export m =
           Inr (if truthy (js_prop m ''default'') then js_prop m ''default''
                else if truthy (js_prop m ''config'') then js_prop m ''config''
                else m) \<and>
         ((export_present m ''default'' \<longrightarrow> truthy (js_prop m ''default'')) \<and>
          (export_present m ''config'' \<longrightarrow> truthy (js_prop m ''config'')) \<longrightarrow>
            normalize_export m = Inr (normalize_by_presence m))"
proof -
  have absent: "\<not> export_present m k \<Longrightarrow> \<not> truthy (js_prop m k)" for k
    by (cases m) (auto split: option.splits)
  show ?thesis
    using assms absent [of "''default''"] absent [of "''config''"]
    by (auto simp: normalize_export_obj normalize_by_presence_def)
qed

theorem normalize_export_priority_witness:
  "\<not> nullish (JObj [(''default'', sample_config ''a.json''), (''config'', sample_config ''b.json'')]) \<and>
   export_present (JObj [(''default'', sample_config ''a.json''), (''config'', sample_config ''b.json'')])
     ''default'' \<and>
   truthy (js_prop (JObj [(''default'', sample_config ''a.json''), (''config'', sample_config ''b.json'')])
     ''default'') \<and>
   truthy (js_prop (JObj [(''default'', sample_config ''a.json''), (''config'', sample_config ''b.json'')])
     ''config'') \<and>
   normalize_export (JObj [(''default'', sample_config ''a.json''), (''config'', sample_config ''b.json'')]) =
     Inr (sample_config ''a.json'') \<and>
   normalize_export (JObj [(''config'', sample_config ''b.json'')]) = Inr (sample_config ''b.json'') \<and>
   normalize_export (sample_config ''c.json'') = Inr (sample_config ''c.json'')"
  using normalize_export_priority
          [of "JObj [(''default'', sample_config ''a.json''), (''config'', sample_config ''b.json'')]"]
        normalize_export_priority [of "JObj [(''config'', sample_config ''b.json'')]"]
        normalize_export_priority [of "sample_config ''c.json''"]
  by (simp add: sample_config_def)

text \<open>
  Normalization can fail: a module whose value is \<^verbatim>\<open>null\<close> (a JSON file holding
  \<^verbatim>\<open>null\<close>, or \<^verbatim>\<open>module.exports = null\<close>) raises a TypeError when its
  \<^verbatim>\<open>default\<close> property is read, and the load fails with that error, not with the
  message of the field validation.
\<close>

theorem normalize_export_null_fails:
  \<open>normalize_export JNull =
     Inl (JsError (''Cannot read properties of null (reading '' @ [CHR 0x27] @ ''default'' @
                   [CHR 0x27] @ '')'')) \<and>
   fst (loadConfigFile (sample_env (Inr JNull) HelpReturns) fresh_world ''cfg.js'') =
     Inl (JsError (''Failed to load configuration file: Cannot read properties of null (reading '' @
                   [CHR 0x27] @ ''default'' @ [CHR 0x27] @ '')'')) \<and>
   fst (loadConfigFile (sample_env (Inr JNull) HelpReturns) fresh_world ''cfg.js'') \<noteq>
     Inl (JsError ''Failed to load configuration file: Configuration must include "input" and "output" properties'')\<close>
  by (simp add: normalize_export_def get_prop_def loadConfigFile_result Let_def sample_defs
        endsWith_def suffix_to_prefix instantiate_def)

text \<open>
  C10 (as amended). Normalization selects by truthiness, not by presence of the key: a
  \<^verbatim>\<open>default\<close> export that exists and is falsy is skipped, the \<^verbatim>\<open>config\<close> export is
  used if it is truthy, and the module object itself if not. For a module that is plain
  data, normalization fails exactly when the value of the module is \<^verbatim>\<open>undefined\<close> or
  \<^verbatim>\<open>null\<close>. Once normalization has returned a value, the load returns that value if
  its \<^verbatim>\<open>input\<close> and \<^verbatim>\<open>output\<close> are both truthy, and otherwise fails with the
  message of the field validation: no other failure is left.
\<close>

theorem normalize_export_by_truthiness:
  \<open>(export_present m ''default'' \<and> \<not> truthy (js_prop m ''default'') \<longrightarrow>
      normalize_export m =
        Inr (if truthy (js_prop m ''config'') then js_prop m ''config'' else m)) \<and>
   (isl (normalize_export m) \<longleftrightarrow> nullish m) \<and>
   (fs_existsSync env (path_resolve env p) \<and>
    require_resolve env (path_resolve env p) = Inr f \<and>
    (endsWith (path_resolve env p) ''.ts'' \<longrightarrow> ts_node_register env = None) \<and>
    instantiate env w f = Inr m \<and>
    normalize_export m = Inr c \<longrightarrow>
      fst (loadConfigFile env w p) =
        (if truthy (js_prop c ''input'') \<and> truthy (js_prop c ''output'') then Inr c
         else Inl (JsError ''Failed to load configuration file: Configuration must include "input" and "output" properties'')))\<close>
proof -
  have first: \<open>export_present m ''default'' \<and> \<not> truthy (js_prop m ''default'') \<longrightarrow>
      normalize_export m =
        Inr (if truthy (js_prop m ''config'') then js_prop m ''config'' else m)\<close>
  proof (cases \<open>nullish m\<close>)
    case True
    then have \<open>\<not> export_present m ''default''\<close>
      by (cases m) simp_all
    then show ?thesis by simp
  next
    case False
    then show ?thesis by (simp add: normalize_export_obj)
  qed
  have second: \<open>isl (normalize_export m) \<longleftrightarrow> nullish m\<close>
    by (cases \<open>nullish m\<close>) (simp_all add: normalize_export_nullish normalize_export_obj)
  have third: \<open>fst (loadConfigFile env w p) =
        (if truthy (js_prop c ''input'') \<and> truthy (js_prop c ''output'') then Inr c
         else Inl (JsError ''Failed to load configuration file: Configuration must include "input" and "output" properties''))\<close>
    if h: \<open>fs_existsSync env (path_resolve env p)\<close>
          \<open>require_resolve env (path_resolve env p) = Inr f\<close>
          \<open>endsWith (path_resolve env p) ''.ts'' \<longrightarrow> ts_node_register env = None\<close>
          \<open>instantiate env w f = Inr m\<close>
          \<open>normalize_export m = Inr c\<close>
  proof -
    have nn: \<open>\<not> nullish c\<close>
      using h(5) by (rule normalize_export_result)
    have \<open>fst (loadConfigFile env w p) =
            (case check_required c of Inl e \<Rightarrow> Inl (wrap_load_error env e) | Inr c' \<Rightarrow> Inr c')\<close>
      using h by (auto simp: loadConfigFile_result)
    then show ?thesis
      using nn check_required_ok [of c] check_required_missing [of c]
      by (auto simp: missing_fields_message_def)
  qed
  from first second third show ?thesis by blast
qed

theorem normalize_export_by_truthiness_witness:
  \<open>export_present (JObj [(''default'', JStr []), (''config'', sample_config ''b.json'')]) ''default'' \<and>
   \<not> truthy (js_prop (JObj [(''default'', JStr []), (''config'', sample_config ''b.json'')]) ''default'') \<and>
   normalize_export (JObj [(''default'', JStr []), (''config'', sample_config ''b.json'')]) =
     Inr (sample_config ''b.json'') \<and>
   export_present (JObj [(''default'', JNum 0), (''config'', JBool False)]) ''default'' \<and>
   normalize_export (JObj [(''default'', JNum 0), (''config'', JBool False)]) =
     Inr (JObj [(''default'', JNum 0), (''config'', JBool False)]) \<and>
   nullish JUndefined \<and> isl (normalize_export JUndefined) \<and>
   fs_existsSync (sample_env (Inr (JObj [(''default'', JNum 0), (''config'', JBool False)])) HelpReturns)
     (path_resolve (sample_env (Inr (JObj [(''default'', JNum 0), (''config'', JBool False)])) HelpReturns)
        ''cfg.js'') \<and>
   require_resolve (sample_env (Inr (JObj [(''default'', JNum 0), (''config'', JBool False)])) HelpReturns)
     (path_resolve (sample_env (Inr (JObj [(''default'', JNum 0), (''config'', JBool False)])) HelpReturns)
        ''cfg.js'') = Inr ''/cfg.js'' \<and>
   \<not> endsWith
       (path_resolve (sample_env (Inr (JObj [(''default'', JNum 0), (''config'', JBool False)])) HelpReturns)
          ''cfg.js'') ''.ts'' \<and>
   instantiate (sample_env (Inr (JObj [(''default'', JNum 0), (''config'', JBool False)])) HelpReturns)
     fresh_world ''/cfg.js'' = Inr (JObj [(''default'', JNum 0), (''config'', JBool False)]) \<and>
   fst (loadConfigFile
          (sample_env (Inr (JObj [(''default'', JNum 0), (''config'', JBool False)])) HelpReturns)
          fresh_world ''cfg.js'') =
     Inl (JsError ''Failed to load configuration file: Configuration must include "input" and "output" properties'') \<and>
   fst (loadConfigFile
          (sample_env (Inr (JObj [(''default'', JStr []), (''config'', sample_config ''b.json'')]))
             HelpReturns)
          fresh_world ''cfg.js'') =
     Inr (sample_config ''b.json'')\<close>
  using normalize_export_by_truthiness
          [of \<open>JObj [(''default'', JStr []), (''config'', sample_config ''b.json'')]\<close>
              \<open>sample_env (Inr (JObj [(''default'', JStr []), (''config'', sample_config ''b.json'')]))
                 HelpReturns\<close>
              \<open>''cfg.js''\<close> \<open>''/cfg.js''\<close> fresh_world \<open>sample_config ''b.json''\<close>]
        normalize_export_by_truthiness
          [of \<open>JObj [(''default'', JNum 0), (''config'', JBool False)]\<close>
              \<open>sample_env (Inr (JObj [(''default'', JNum 0), (''config'', JBool False)])) HelpReturns\<close>
              \<open>''cfg.js''\<close> \<open>''/cfg.js''\<close> fresh_world
              \<open>JObj [(''default'', JNum 0), (''config'', JBool False)]\<close>]
        normalize_export_by_truthiness
          [of JUndefined
              \<open>sample_env (Inr JUndefined) HelpReturns\<close>
              \<open>''cfg.js''\<close> \<open>''/cfg.js''\<close> fresh_world JUndefined]
  by (simp add: sample_defs endsWith_def suffix_to_prefix instantiate_def)

subsection \<open>Dispatch\<close>

lemma engine_requests_append:
  "engine_requests (xs @ ys) = engine_requests xs @ engine_requests ys"
  by (induction xs rule: engine_requests.induct) simp_all

lemma validateInput_engine_requests:
  "engine_requests (trace (snd (validateInput env w v))) = engine_requests (trace w)"
  by (simp add: validateInput_def emit_def Let_def engine_requests_append
           split: sum.splits jsval.splits)

lemma require_trace: "trace (snd (require env w p)) = trace w"
  by (simp add: require_def Let_def split: sum.splits option.splits)

lemma load_module_trace: "trace (snd (load_module env w p)) = trace w"
proof -
  have "trace (snd (load_module env w p)) = trace (snd (require env w p)) \<or>
        trace (snd (load_module env w p)) = trace w"
    by (cases "require env w p") (auto simp: load_module_def split: option.splits sum.splits)
  then show ?thesis
    by (auto simp: require_trace)
qed

lemma loadConfigFile_engine_requests:
  "engine_requests (trace (snd (loadConfigFile env w p))) = engine_requests (trace w)"
proof -
  let ?w1 = "emit (FsExistsSync (JStr (path_resolve env p))) w"
  have e: "engine_requests (trace ?w1) = engine_requests (trace w)"
    by (simp add: emit_def engine_requests_append)
  have "trace (snd (loadConfigFile env w p)) = trace ?w1"
  proof (cases "require_resolve env (path_resolve env p)")
    case (Inl a)
    then show ?thesis by (simp add: loadConfigFile_def Let_def)
  next
    case (Inr fl)
    let ?w2 = "?w1\<lparr>require_cache := (require_cache ?w1)(fl := None)\<rparr>"
    have "trace (snd (load_module env ?w2 (path_resolve env p))) = trace ?w1"
      by (simp add: load_module_trace)
    then show ?thesis
      using Inr
      by (cases "load_module env ?w2 (path_resolve env p)")
         (auto simp: loadConfigFile_def Let_def split: sum.splits)
  qed
  with e show ?thesis by simp
qed

lemma loadConfigFile_Inr:
  assumes "fst (loadConfigFile env w p) = Inr c"
  shows "truthy (js_prop c ''input'') \<and> truthy (js_prop c ''output'') \<and>
         (\<exists>f m. require_resolve env (path_resolve env p) = Inr f \<and>
                instantiate env w f = Inr m \<and> normalize_export m = Inr c)"
  using assms
  by (auto simp: loadConfigFile_result Let_def
           split: if_splits sum.splits option.splits dest: check_required_Inr)

text \<open>The requests that a dispatch hands to the engine, by branch.\<close>

lemma dispatch_engine_requests:
  assumes "engine_requests (trace w) = []"
    and "r \<in> set (engine_requests (trace (snd (dispatch env w options))))"
  shows "(truthy (js_prop options ''config'') \<and>
            (\<exists>p. js_prop options ''config'' = JStr p \<and>
                 fst (loadConfigFile env w p) = Inr r)) \<or>
         (\<not> truthy (js_prop options ''config'') \<and> truthy (js_prop options ''input'') \<and>
            r = flags_config options)"
proof (cases "nullish options")
  case True
  with assms show ?thesis by (simp add: dispatch_def get_prop_def)
next
  case nn: False
  show ?thesis
  proof (cases "truthy (js_prop options ''config'')")
    case cfg: True
    show ?thesis
    proof (cases "js_prop options ''config''")
      case (JStr p)
      obtain res w1 where l: "loadConfigFile env w p = (res, w1)"
        by (cases "loadConfigFile env w p")
      have t1: "engine_requests (trace w1) = []"
        using loadConfigFile_engine_requests [of env w p] l assms(1) by simp
      show ?thesis
      proof (cases res)
        case (Inl e)
        with assms nn cfg JStr l t1 show ?thesis
          by (simp add: dispatch_def get_prop_def load_from_flag_def)
      next
        case (Inr c)
        obtain vres w2 where v: "validateInput env w1 (js_prop c ''input'') = (vres, w2)"
          by (cases "validateInput env w1 (js_prop c ''input'')")
        have t2: "engine_requests (trace w2) = []"
          using validateInput_engine_requests [of env w1 "js_prop c ''input''"] v t1 by simp
        have "r = c"
          using assms(2) nn cfg JStr l Inr v t1 t2
          by (cases "nullish c"; cases vres)
             (auto simp: dispatch_def get_prop_def load_from_flag_def call_engine_def emit_def
                         Let_def engine_requests_append split: option.splits)
        with l Inr cfg JStr show ?thesis by (metis fst_conv)
      qed
    qed (use assms nn cfg in \<open>simp_all add: dispatch_def get_prop_def load_from_flag_def\<close>)
  next
    case nocfg: False
    show ?thesis
    proof (cases "truthy (js_prop options ''input'')")
      case inp: True
      obtain vres w1 where v: "validateInput env w (js_prop options ''input'') = (vres, w1)"
        by (cases "validateInput env w (js_prop options ''input'')")
      have t1: "engine_requests (trace w1) = []"
        using validateInput_engine_requests [of env w "js_prop options ''input''"] v assms(1)
        by simp
      have "r = flags_config options"
        using assms(2) nn nocfg inp v t1
        by (cases vres)
           (auto simp: dispatch_def get_prop_def call_engine_def emit_def Let_def
                       engine_requests_append split: option.splits)
      with nocfg inp show ?thesis by simp
    next
      case False
      with assms nn nocfg show ?thesis
        by (auto simp: dispatch_def get_prop_def emit_def Let_def engine_requests_append
                 split: help_behaviour.splits)
    qed
  qed
qed

lemma generateFromOptions_engine_requests:
  "engine_requests (trace (snd (generateFromOptions env w options))) =
     engine_requests (trace (snd (dispatch env w options)))"
  by (cases "dispatch env w options")
     (auto simp: generateFromOptions_def emit_def engine_requests_append split: completion.splits)

lemma flags_config_populated:
  "truthy (js_prop options ''input'') \<Longrightarrow> fully_populated (flags_config options)"
  by (simp add: fully_populated_def flags_config_def carries_value_def js_or_def
        truthy_not_nullish)

text \<open>
  In the configuration-file branch nothing fills in the options: a module that exports
  only \<^verbatim>\<open>input\<close> and \<^verbatim>\<open>output\<close> is handed to the engine as it is, without an
  \<^verbatim>\<open>options\<close> record.
\<close>

theorem config_branch_request_without_options:
  "engine_requests (trace (snd (generateFromOptions
      (sample_env (Inr (sample_config ''https://api.example.com/openapi.json'')) HelpReturns)
      fresh_world (JObj [(''config'', JStr ''cfg.js'')])))) =
     [sample_config ''https://api.example.com/openapi.json''] \<and>
   \<not> fully_populated (sample_config ''https://api.example.com/openapi.json'')"
  by (simp add: generateFromOptions_def dispatch_def get_prop_def load_from_flag_def
        loadConfigFile_def load_module_def require_def instantiate_def normalize_export_def
        check_required_def validateInput_def isUrl_def new_URL_def call_engine_def emit_def
        Let_def sample_defs endsWith_def suffix_to_prefix supportedProtocols_def
        fully_populated_def carries_value_def)

text \<open>
  C3 (as amended). Every request handed to the generation engine has a truthy (hence
  non-empty) \<^verbatim>\<open>input\<close> and \<^verbatim>\<open>output\<close>, in both branches. In the flags-only
  branch it is fully populated: the four options fields carry a value as well. In the
  configuration-file branch the request is the normalized export of the module that
  \<^verbatim>\<open>require\<close> returned, unchanged: its options are the ones the module supplies, and
  no default is applied.
\<close>

theorem engine_request_populated:
  assumes "engine_requests (trace w) = []"
    and "r \<in> set (engine_requests (trace (snd (generateFromOptions env w options))))"
  shows "truthy (js_prop r ''input'') \<and> truthy (js_prop r ''output'') \<and>
         (\<not> truthy (js_prop options ''config'') \<longrightarrow> fully_populated r) \<and>
         (truthy (js_prop options ''config'') \<longrightarrow>
            (\<exists>p f m. js_prop options ''config'' = JStr p \<and>
                     require_resolve env (path_resolve env p) = Inr f \<and>
                     instantiate env w f = Inr m \<and>
                     normalize_export m = Inr r))"
proof -
  have "r \<in> set (engine_requests (trace (snd (dispatch env w options))))"
    using assms(2) by (simp add: generateFromOptions_engine_requests)
  from dispatch_engine_requests [OF assms(1) this] show ?thesis
  proof
    assume c: "truthy (js_prop options ''config'') \<and>
               (\<exists>p. js_prop options ''config'' = JStr p \<and> fst (loadConfigFile env w p) = Inr r)"
    then obtain p where p: "js_prop options ''config'' = JStr p"
      and l: "fst (loadConfigFile env w p) = Inr r"
      by blast
    from loadConfigFile_Inr [OF l] p c show ?thesis
      by auto
  next
    assume f: "\<not> truthy (js_prop options ''config'') \<and> truthy (js_prop options ''input'') \<and>
               r = flags_config options"
    then have "fully_populated r"
      by (simp add: flags_config_populated)
    moreover have "truthy (js_prop r ''input'') \<and> truthy (js_prop r ''output'')"
      using f by (simp add: flags_config_def js_or_def)
    ultimately show ?thesis using f by simp
  qed
qed

theorem engine_request_populated_witness:
  "engine_requests (trace fresh_world) = [] \<and>
   flags_config (JObj [(''input'', JStr ''./spec.json'')]) \<in>
     set (engine_requests (trace (snd (generateFromOptions
            (sample_env (Inr JNull) HelpReturns) fresh_world
            (JObj [(''input'', JStr ''./spec.json'')]))))) \<and>
   \<not> truthy (js_prop (JObj [(''input'', JStr ''./spec.json'')]) ''config'') \<and>
   fully_populated (flags_config (JObj [(''input'', JStr ''./spec.json'')])) \<and>
   JObj [(''input'', JStr ''./spec.json''), (''output'', JStr ''out''),
         (''options'', JObj [(''dateType'', JStr ''string'')])] \<in>
     set (engine_requests (trace (snd (generateFromOptions
            (sample_env
               (Inr (JObj [(''default'',
                      JObj [(''input'', JStr ''./spec.json''), (''output'', JStr ''out''),
                            (''options'', JObj [(''dateType'', JStr ''string'')])])]))
               HelpReturns)
            fresh_world (JObj [(''config'', JStr ''cfg.js'')]))))) \<and>
   truthy (js_prop (JObj [(''config'', JStr ''cfg.js'')]) ''config'') \<and>
   normalize_export
     (JObj [(''default'',
        JObj [(''input'', JStr ''./spec.json''), (''output'', JStr ''out''),
              (''options'', JObj [(''dateType'', JStr ''string'')])])]) =
     Inr (JObj [(''input'', JStr ''./spec.json''), (''output'', JStr ''out''),
                (''options'', JObj [(''dateType'', JStr ''string'')])])"
  using engine_request_populated
          [of fresh_world "flags_config (JObj [(''input'', JStr ''./spec.json'')])"
              "sample_env (Inr JNull) HelpReturns" "JObj [(''input'', JStr ''./spec.json'')]"]
        engine_request_populated
          [of fresh_world
              "JObj [(''input'', JStr ''./spec.json''), (''output'', JStr ''out''),
                     (''options'', JObj [(''dateType'', JStr ''string'')])]"
              "sample_env
                 (Inr (JObj [(''default'',
                        JObj [(''input'', JStr ''./spec.json''), (''output'', JStr ''out''),
                              (''options'', JObj [(''dateType'', JStr ''string'')])])]))
                 HelpReturns"
              "JObj [(''config'', JStr ''cfg.js'')]"]
  by (simp add: generateFromOptions_def dispatch_def get_prop_def validateInput_def isUrl_def
        new_URL_def existsSync_def call_engine_def emit_def Let_def sample_defs
        supportedExtensions_def toLowerCase_def lower_char_def load_from_flag_def
        loadConfigFile_def load_module_def require_def instantiate_def normalize_export_def
        check_required_def endsWith_def suffix_to_prefix)

text \<open>
  C8. In the flags-only branch, once the input has passed validation, the engine is called
  once, with a request in which \<^verbatim>\<open>generateServices\<close> is the negation of the
  types-only flag, \<^verbatim>\<open>output\<close> is \<^verbatim>\<open>./src/generated\<close> when the flag is absent,
  \<^verbatim>\<open>dateType\<close> is \<^verbatim>\<open>Date\<close> when the flag is absent (and the flag's value when
  one is given), \<^verbatim>\<open>enumStyle\<close> is \<^verbatim>\<open>enum\<close> and
  \<^verbatim>\<open>generateEnumBasedOnDescription\<close> is true.
\<close>

theorem flags_only_request:
  assumes "engine_requests (trace w) = []"
    and "\<not> truthy (js_prop options ''config'')"
    and "truthy (js_prop options ''input'')"
    and "fst (validateInput env w (js_prop options ''input'')) = Inr ()"
  shows "(let r = flags_config options in
           engine_requests (trace (snd (generateFromOptions env w options))) = [r] \<and>
           js_prop r ''input'' = js_prop options ''input'' \<and>
           js_prop (js_prop r ''options'') ''generateServices'' =
             JBool (\<not> truthy (js_prop options ''typesOnly'')) \<and>
           (js_prop options ''output'' = JUndefined \<longrightarrow>
              js_prop r ''output'' = JStr ''./src/generated'') \<and>
           (truthy (js_prop options ''output'') \<longrightarrow>
              js_prop r ''output'' = js_prop options ''output'') \<and>
           (js_prop options ''dateType'' = JUndefined \<longrightarrow>
              js_prop (js_prop r ''options'') ''dateType'' = JStr ''Date'') \<and>
           (truthy (js_prop options ''dateType'') \<longrightarrow>
              js_prop (js_prop r ''options'') ''dateType'' = js_prop options ''dateType'') \<and>
           js_prop (js_prop r ''options'') ''enumStyle'' = JStr ''enum'' \<and>
           js_prop (js_prop r ''options'') ''generateEnumBasedOnDescription'' = JBool True)"
proof -
  have nn: "\<not> nullish options"
    using assms(3) by (cases options) simp_all
  obtain w1 where v: "validateInput env w (js_prop options ''input'') = (Inr (), w1)"
    using assms(4) by (cases "validateInput env w (js_prop options ''input'')") simp
  have t1: "engine_requests (trace w1) = []"
    using validateInput_engine_requests [of env w "js_prop options ''input''"] v assms(1)
    by simp
  have "engine_requests (trace (snd (dispatch env w options))) = [flags_config options]"
    using nn assms(2,3) v t1
    by (auto simp: dispatch_def get_prop_def call_engine_def emit_def Let_def
                   engine_requests_append split: option.splits)
  then have "engine_requests (trace (snd (generateFromOptions env w options))) =
               [flags_config options]"
    by (simp add: generateFromOptions_engine_requests)
  then show ?thesis
    by (simp add: flags_config_def js_or_def Let_def)
qed

theorem flags_only_request_witness:
  "engine_requests (trace fresh_world) = [] \<and>
   \<not> truthy (js_prop (JObj [(''config'', JUndefined), (''input'', JStr ''./spec.json''),
                            (''typesOnly'', JBool True)]) ''config'') \<and>
   truthy (js_prop (JObj [(''config'', JUndefined), (''input'', JStr ''./spec.json''),
                          (''typesOnly'', JBool True)]) ''input'') \<and>
   fst (validateInput (sample_env (Inr JNull) HelpReturns) fresh_world (JStr ''./spec.json'')) =
     Inr () \<and>
   (let r = flags_config (JObj [(''config'', JUndefined), (''input'', JStr ''./spec.json''),
                                (''typesOnly'', JBool True)]) in
      engine_requests (trace (snd (generateFromOptions (sample_env (Inr JNull) HelpReturns)
            fresh_world
            (JObj [(''config'', JUndefined), (''input'', JStr ''./spec.json''),
                   (''typesOnly'', JBool True)])))) = [r] \<and>
      js_prop (js_prop r ''options'') ''generateServices'' = JBool False \<and>
      js_prop r ''output'' = JStr ''./src/generated'')"
  using flags_only_request
          [of fresh_world
              "JObj [(''config'', JUndefined), (''input'', JStr ''./spec.json''),
                     (''typesOnly'', JBool True)]"
              "sample_env (Inr JNull) HelpReturns"]
  by (simp add: validateInput_def isUrl_def new_URL_def existsSync_def emit_def Let_def
        sample_defs supportedExtensions_def toLowerCase_def lower_char_def flags_config_def
        js_or_def)

text \<open>
  With neither flag the dispatcher prints the usage error, calls \<^verbatim>\<open>program.help()\<close>
  and never calls the engine; the exit status is the one \<^verbatim>\<open>program.help()\<close> exits
  with, and 1 only if that call comes back (or throws).
\<close>

lemma generateFromOptions_usage:
  assumes "\<not> nullish options"
    and "\<not> truthy (js_prop options ''config'')"
    and "\<not> truthy (js_prop options ''input'')"
  shows "generateFromOptions env w options =
           (case program_help env of
              HelpReturns \<Rightarrow> (1, emit ProgramHelp (emit (ConsoleError [JStr usage_message]) w))
            | HelpExits n \<Rightarrow> (n, emit ProgramHelp (emit (ConsoleError [JStr usage_message]) w))
            | HelpThrows e \<Rightarrow>
                (1, emit (ConsoleError [JStr ''Generation failed:'', error_arg e])
                      (emit ProgramHelp (emit (ConsoleError [JStr usage_message]) w))))"
  using assms
  by (simp add: generateFromOptions_def dispatch_def get_prop_def Let_def
           split: help_behaviour.splits)

text \<open>
  C2. Invoked with neither \<^verbatim>\<open>--config\<close> nor \<^verbatim>\<open>--input\<close> (the option parser then
  supplies only the defaults of \<^verbatim>\<open>--output\<close> and \<^verbatim>\<open>--date-type\<close>), with
  \<^verbatim>\<open>program.help()\<close> behaving as commander's does (it ends the process with status 0):
  the usage error is printed and the engine is not called, but the exit status is 0, not
  the 1 of the \<^verbatim>\<open>process.exit(1)\<close> that follows the call.
\<close>

theorem generateFromOptions_no_flags_exit_status:
  "generateFromOptions (sample_env (Inr JNull) (HelpExits 0)) fresh_world
     (JObj [(''output'', JStr ''./src/generated''), (''dateType'', JStr ''Date'')]) =
     (0, \<lparr>require_cache = Map.empty, esm_cache = Map.empty,
          trace = [ConsoleError [JStr ''Error: Either --config or --input option is required''],
                   ProgramHelp]\<rparr>) \<and>
   engine_requests (trace (snd (generateFromOptions (sample_env (Inr JNull) (HelpExits 0))
     fresh_world (JObj [(''output'', JStr ''./src/generated''), (''dateType'', JStr ''Date'')])))) = []"
  by (simp add: generateFromOptions_def dispatch_def get_prop_def Let_def emit_def
        usage_message_def sample_env_def fresh_world_def)

end
